theory Spec2Isabelle
  imports Main "HOL-Library.Word"
begin

section \<open>The Homa user-level API (homa_api.c)\<close>

text \<open>
  The file \<^verbatim>\<open>homa_api.c\<close> is a thin run-time library: each function fills in a
  control block and a message header on its stack and issues exactly one system call
  (\<^verbatim>\<open>sendmsg\<close>, \<^verbatim>\<open>ioctl\<close> or \<^verbatim>\<open>getsockopt\<close>).
  The transport engine behind the system calls is not part of the file. It is a parameter
  of the model (a record of three functions over an opaque engine state), so that every
  theorem below holds for every engine. The system-call layer appends each call, with the
  arguments it was given, to a log kept in the world; statements about what is handed to
  the underlying primitive are statements about that log.
\<close>

subsection \<open>C types\<close>

type_synonym u64 = "64 word"      \<comment> \<open>\<^verbatim>\<open>uint64_t\<close>\<close>
type_synonym u32 = "32 word"      \<comment> \<open>\<^verbatim>\<open>uint32_t\<close>, \<^verbatim>\<open>socklen_t\<close>\<close>
type_synonym int32 = "32 word"    \<comment> \<open>\<^verbatim>\<open>int\<close>, read with \<open>sint\<close>\<close>
type_synonym size_t = "64 word"
type_synonym ssize_t = "64 word"  \<comment> \<open>read with \<open>sint\<close>\<close>
type_synonym addr = "64 word"     \<comment> \<open>a data pointer of the caller\<close>

definition NULL :: addr where
  "NULL = 0"

text \<open>
  A \<^verbatim>\<open>struct sockaddr *\<close> is modelled by the bytes it points to, the null pointer by
  \<open>None\<close>. A \<^verbatim>\<open>struct iovec *\<close> is modelled by the array it points to. Message
  buffers (\<^verbatim>\<open>void *\<close>) stay addresses: the library never reads them.
\<close>

type_synonym sockaddr = "8 word list"

record iovec =
  iov_base :: addr
  iov_len :: size_t

text \<open>
  \<^verbatim>\<open>struct homa_sendmsg_args\<close> and \<^verbatim>\<open>struct homa_abort_args\<close> are declared in
  \<^verbatim>\<open>homa.h\<close>; the fields are those the library assigns. The field \<^verbatim>\<open>id\<close> is
  suffixed, \<open>id\<close> being the identity function of HOL.
\<close>

record homa_sendmsg_args =
  id_sendmsg :: u64
  completion_cookie :: u64

record homa_abort_args =
  id_abort :: u64
  error :: int32

text \<open>
  \<^verbatim>\<open>struct msghdr\<close>, with the six fields the library assigns. \<^verbatim>\<open>msg_control\<close>
  points to the control block on the library's stack and is modelled by that block.
  The library leaves \<^verbatim>\<open>msg_flags\<close> unassigned, and \<^verbatim>\<open>sendmsg\<close> does not read it.
\<close>

record msghdr =
  msg_name :: "sockaddr option"
  msg_namelen :: u32
  msg_iov :: "iovec list"
  msg_iovlen :: size_t
  msg_control :: homa_sendmsg_args
  msg_controllen :: size_t

text \<open>
  The constants of \<^verbatim>\<open>homa.h\<close> that the library passes on. Their values are not in the
  file and are taken as a parameter.
\<close>

record homa_h =
  HOMAIOCABORT :: "64 word"
  IPPROTO_HOMA :: int32
  SO_HOMA_PEELOFF :: int32

subsection \<open>The system-call boundary\<close>

datatype syscall =
  Sendmsg int32 msghdr int32
| Ioctl int32 "64 word" homa_abort_args
| Getsockopt int32 int32 int32 "sockaddr option" u32

text \<open>
  The engine: what each system call answers, as a function of the engine's state. A call
  that is given a pointer to a block it may write returns the block as it leaves it.
  The status of a call is an \<^verbatim>\<open>int\<close>: the kernel computes the status of
  \<^verbatim>\<open>sendmsg\<close> in an \<^verbatim>\<open>int\<close> (\<^verbatim>\<open>homa_api.c\<close> documents the values 0 and
  \<open>-1\<close>), and \<^verbatim>\<open>sendmsg\<close> below widens it to the \<^verbatim>\<open>ssize_t\<close> of its C
  prototype. The error code (\<^verbatim>\<open>errno\<close>) is part of the engine's state.
\<close>

record 'k kernel =
  k_sendmsg :: "'k \<Rightarrow> int32 \<Rightarrow> msghdr \<Rightarrow> int32 \<Rightarrow> int32 \<times> homa_sendmsg_args \<times> 'k"
  k_ioctl :: "'k \<Rightarrow> int32 \<Rightarrow> 64 word \<Rightarrow> homa_abort_args \<Rightarrow> int32 \<times> homa_abort_args \<times> 'k"
  k_getsockopt :: "'k \<Rightarrow> int32 \<Rightarrow> int32 \<Rightarrow> int32 \<Rightarrow> sockaddr option \<Rightarrow> u32
                     \<Rightarrow> int32 \<times> sockaddr option \<times> u32 \<times> 'k"

text \<open>
  The world of a caller: the log of the system calls issued so far, the caller's
  \<^verbatim>\<open>uint64_t\<close> objects by address, and the engine's state.
\<close>

record 'k world =
  calls :: "syscall list"
  umem :: "addr \<Rightarrow> u64"
  kstate :: 'k

definition sendmsg :: "'k kernel \<Rightarrow> 'k world \<Rightarrow> int32 \<Rightarrow> msghdr \<Rightarrow> int32
    \<Rightarrow> ssize_t \<times> homa_sendmsg_args \<times> 'k world" where
  "sendmsg K w sockfd hdr flags =
     (case k_sendmsg K (kstate w) sockfd hdr flags of
        (r, args', k') \<Rightarrow>
          (scast r, args', w\<lparr>calls := calls w @ [Sendmsg sockfd hdr flags], kstate := k'\<rparr>))"

definition ioctl :: "'k kernel \<Rightarrow> 'k world \<Rightarrow> int32 \<Rightarrow> 64 word \<Rightarrow> homa_abort_args
    \<Rightarrow> int32 \<times> homa_abort_args \<times> 'k world" where
  "ioctl K w sockfd request args =
     (case k_ioctl K (kstate w) sockfd request args of
        (r, args', k') \<Rightarrow>
          (r, args', w\<lparr>calls := calls w @ [Ioctl sockfd request args], kstate := k'\<rparr>))"

definition getsockopt :: "'k kernel \<Rightarrow> 'k world \<Rightarrow> int32 \<Rightarrow> int32 \<Rightarrow> int32
    \<Rightarrow> sockaddr option \<Rightarrow> u32 \<Rightarrow> int32 \<times> sockaddr option \<times> u32 \<times> 'k world" where
  "getsockopt K w sockfd level optname optval optlen =
     (case k_getsockopt K (kstate w) sockfd level optname optval optlen of
        (r, optval', optlen', k') \<Rightarrow>
          (r, optval', optlen',
           w\<lparr>calls := calls w @ [Getsockopt sockfd level optname optval optlen],
             kstate := k'\<rparr>))"

text \<open>
  A store through a \<^verbatim>\<open>uint64_t *\<close>. A store through the null pointer is a fault.
\<close>

datatype fault = SIGSEGV

definition store_u64 :: "'k world \<Rightarrow> addr \<Rightarrow> u64 \<Rightarrow> fault + 'k world" where
  "store_u64 w p v =
     (if p = NULL then Inl SIGSEGV else Inr (w\<lparr>umem := (umem w)(p := v)\<rparr>))"

subsection \<open>The library functions\<close>

text \<open>
  Each definition follows its C function line by line. \<open>result\<close> is the local
  \<^verbatim>\<open>int result\<close>: the \<^verbatim>\<open>ssize_t\<close> of \<^verbatim>\<open>sendmsg\<close> is narrowed to it, and
  \<^verbatim>\<open>homa_reply\<close>, \<^verbatim>\<open>homa_replyv\<close> and \<^verbatim>\<open>homa_reply_connected\<close> widen it again
  to their \<^verbatim>\<open>ssize_t\<close> return type.
\<close>

definition homa_reply :: "'k kernel \<Rightarrow> 'k world \<Rightarrow> int32 \<Rightarrow> addr \<Rightarrow> size_t
    \<Rightarrow> sockaddr option \<Rightarrow> u32 \<Rightarrow> u64 \<Rightarrow> ssize_t \<times> 'k world" where
  "homa_reply K w sockfd message_buf len dest_addr addrlen rpc_id =
     (let args = \<lparr>id_sendmsg = rpc_id, completion_cookie = 0\<rparr>;
          vec = \<lparr>iov_base = message_buf, iov_len = len\<rparr>;
          hdr = \<lparr>msg_name = dest_addr, msg_namelen = addrlen,
                 msg_iov = [vec], msg_iovlen = 1,
                 msg_control = args, msg_controllen = 0\<rparr>
      in case sendmsg K w sockfd hdr 0 of
           (r, args', w') \<Rightarrow>
             (let result = (scast r :: int32) in (scast result, w')))"

definition homa_replyv :: "'k kernel \<Rightarrow> 'k world \<Rightarrow> int32 \<Rightarrow> iovec list \<Rightarrow> int32
    \<Rightarrow> sockaddr option \<Rightarrow> u32 \<Rightarrow> u64 \<Rightarrow> ssize_t \<times> 'k world" where
  "homa_replyv K w sockfd iov iovcnt dest_addr addrlen rpc_id =
     (let args = \<lparr>id_sendmsg = rpc_id, completion_cookie = 0\<rparr>;
          hdr = \<lparr>msg_name = dest_addr, msg_namelen = addrlen,
                 msg_iov = iov, msg_iovlen = scast iovcnt,
                 msg_control = args, msg_controllen = 0\<rparr>
      in case sendmsg K w sockfd hdr 0 of
           (r, args', w') \<Rightarrow>
             (let result = (scast r :: int32) in (scast result, w')))"

definition homa_send :: "'k kernel \<Rightarrow> 'k world \<Rightarrow> int32 \<Rightarrow> addr \<Rightarrow> size_t
    \<Rightarrow> sockaddr option \<Rightarrow> u32 \<Rightarrow> addr \<Rightarrow> u64 \<Rightarrow> fault + (int32 \<times> 'k world)" where
  "homa_send K w sockfd message_buf len dest_addr addrlen idp cookie =
     (let args = \<lparr>id_sendmsg = 0, completion_cookie = cookie\<rparr>;
          vec = \<lparr>iov_base = message_buf, iov_len = len\<rparr>;
          hdr = \<lparr>msg_name = dest_addr, msg_namelen = addrlen,
                 msg_iov = [vec], msg_iovlen = 1,
                 msg_control = args, msg_controllen = 0\<rparr>
      in case sendmsg K w sockfd hdr 0 of
           (r, args', w') \<Rightarrow>
             (let result = (scast r :: int32) in
              if 0 \<le> sint result \<and> idp \<noteq> NULL
              then (case store_u64 w' idp (id_sendmsg args') of
                      Inl f \<Rightarrow> Inl f
                    | Inr w'' \<Rightarrow> Inr (result, w''))
              else Inr (result, w')))"

definition homa_sendv :: "'k kernel \<Rightarrow> 'k world \<Rightarrow> int32 \<Rightarrow> iovec list \<Rightarrow> int32
    \<Rightarrow> sockaddr option \<Rightarrow> u32 \<Rightarrow> addr \<Rightarrow> u64 \<Rightarrow> fault + (int32 \<times> 'k world)" where
  "homa_sendv K w sockfd iov iovcnt dest_addr addrlen idp cookie =
     (let args = \<lparr>id_sendmsg = 0, completion_cookie = cookie\<rparr>;
          hdr = \<lparr>msg_name = dest_addr, msg_namelen = addrlen,
                 msg_iov = iov, msg_iovlen = scast iovcnt,
                 msg_control = args, msg_controllen = 0\<rparr>
      in case sendmsg K w sockfd hdr 0 of
           (r, args', w') \<Rightarrow>
             (let result = (scast r :: int32) in
              if 0 \<le> sint result \<and> idp \<noteq> NULL
              then (case store_u64 w' idp (id_sendmsg args') of
                      Inl f \<Rightarrow> Inl f
                    | Inr w'' \<Rightarrow> Inr (result, w''))
              else Inr (result, w')))"

definition homa_abort :: "homa_h \<Rightarrow> 'k kernel \<Rightarrow> 'k world \<Rightarrow> int32 \<Rightarrow> u64 \<Rightarrow> int32
    \<Rightarrow> int32 \<times> 'k world" where
  "homa_abort H K w sockfd rpc_id err =
     (let args = \<lparr>id_abort = rpc_id, error = err\<rparr>
      in case ioctl K w sockfd (HOMAIOCABORT H) args of
           (r, args', w') \<Rightarrow> (r, w'))"

definition homa_reply_connected :: "'k kernel \<Rightarrow> 'k world \<Rightarrow> int32 \<Rightarrow> addr \<Rightarrow> size_t
    \<Rightarrow> u64 \<Rightarrow> ssize_t \<times> 'k world" where
  "homa_reply_connected K w sockfd message_buf len rpc_id =
     (let args = \<lparr>id_sendmsg = rpc_id, completion_cookie = 0\<rparr>;
          vec = \<lparr>iov_base = message_buf, iov_len = len\<rparr>;
          hdr = \<lparr>msg_name = None, msg_namelen = 0,
                 msg_iov = [vec], msg_iovlen = 1,
                 msg_control = args, msg_controllen = 0\<rparr>
      in case sendmsg K w sockfd hdr 0 of
           (r, args', w') \<Rightarrow>
             (let result = (scast r :: int32) in (scast result, w')))"

definition homa_send_connected :: "'k kernel \<Rightarrow> 'k world \<Rightarrow> int32 \<Rightarrow> addr \<Rightarrow> size_t
    \<Rightarrow> int32 \<Rightarrow> int32 \<times> 'k world" where
  "homa_send_connected K w sockfd message_buf len flags =
     (let args = \<lparr>id_sendmsg = 0, completion_cookie = 0\<rparr>;
          vec = \<lparr>iov_base = message_buf, iov_len = len\<rparr>;
          hdr = \<lparr>msg_name = None, msg_namelen = 0,
                 msg_iov = [vec], msg_iovlen = 1,
                 msg_control = args, msg_controllen = 0\<rparr>
      in case sendmsg K w sockfd hdr 0 of
           (r, args', w') \<Rightarrow>
             (let result = (scast r :: int32) in (result, w')))"

text \<open>
  \<^verbatim>\<open>homa_peeloff\<close> passes \<^verbatim>\<open>client_addr\<close> as the option value and the address of
  its own copy of \<^verbatim>\<open>addrlen\<close> as the option length. What the engine leaves at
  \<^verbatim>\<open>client_addr\<close> is returned with the result; the copy of \<^verbatim>\<open>addrlen\<close> is
  dropped.
\<close>

definition homa_peeloff :: "homa_h \<Rightarrow> 'k kernel \<Rightarrow> 'k world \<Rightarrow> int32 \<Rightarrow> sockaddr option
    \<Rightarrow> u32 \<Rightarrow> int32 \<times> sockaddr option \<times> 'k world" where
  "homa_peeloff H K w sockfd client_addr addrlen =
     (case getsockopt K w sockfd (IPPROTO_HOMA H) (SO_HOMA_PEELOFF H) client_addr addrlen of
        (r, client_addr', addrlen', w') \<Rightarrow> (r, client_addr', w'))"

subsection \<open>An engine for running the library\<close>

text \<open>
  A small engine on which the library can be run on concrete inputs. Its state is the
  last identifier it has assigned. A send on a negative descriptor is rejected; a send
  whose control block holds the identifier 0 starts an RPC and is assigned the next
  identifier, written into the control block; any other send is a reply.
\<close>

definition test_kernel :: "u64 kernel" where
  "test_kernel =
     \<lparr>k_sendmsg = (\<lambda>k sockfd hdr flags.
        if sint sockfd < 0 then (- 1, msg_control hdr, k)
        else if id_sendmsg (msg_control hdr) = 0
        then (0, (msg_control hdr)\<lparr>id_sendmsg := k + 1\<rparr>, k + 1)
        else (0, msg_control hdr, k)),
      k_ioctl = (\<lambda>k sockfd request args. (0, args, k)),
      k_getsockopt = (\<lambda>k sockfd level optname optval optlen. (- 1, optval, optlen, k))\<rparr>"

definition test_world :: "u64 world" where
  "test_world = \<lparr>calls = [], umem = (\<lambda>p. 0), kstate = 1000\<rparr>"

text \<open>
  Values for the constants of \<^verbatim>\<open>homa.h\<close>, chosen for the runs only, and an engine
  that rejects every call.
\<close>

definition test_homa_h :: homa_h where
  "test_homa_h = \<lparr>HOMAIOCABORT = 0x89E3, IPPROTO_HOMA = 0xFD, SO_HOMA_PEELOFF = 12\<rparr>"

definition null_kernel :: "'k kernel" where
  "null_kernel =
     \<lparr>k_sendmsg = (\<lambda>k sockfd hdr flags. (- 1, msg_control hdr, k)),
      k_ioctl = (\<lambda>k sockfd request args. (- 1, args, k)),
      k_getsockopt = (\<lambda>k sockfd level optname optval optlen. (- 1, optval, optlen, k))\<rparr>"

subsection \<open>The engine's side of peel-off\<close>

text \<open>
  Modelled from the spec: the engine's handler of the peel-off socket option, which
  \<^verbatim>\<open>homa_peeloff\<close> reaches through \<^verbatim>\<open>getsockopt\<close> and which is not in
  \<^verbatim>\<open>homa_api.c\<close>. After sections 3, 4.4 and 7 of the spec: a socket is a listening
  socket or a peeled-off socket bound to exactly one peer; the peer addresses (address
  and length) observed by receive calls on a listening socket are its live
  associations; peel-off on a live association creates a new socket bound to that peer
  and leaves the listening socket as it is; on anything else it fails with an
  addressing error and creates nothing. Handles are descriptors: slot \<open>n\<close> of the
  table holds the socket of handle \<open>n\<close>, and a new socket takes the lowest free slot.
\<close>

datatype engine_error = TransportRejected | AddressingError

datatype socket = Listening "(sockaddr \<times> u32) list" | PeeledOff sockaddr u32

record engine =
  sockets :: "socket option list"
  last_error :: "engine_error option"

definition lookup_socket :: "engine \<Rightarrow> int32 \<Rightarrow> socket option" where
  "lookup_socket e s =
     (if 0 \<le> sint s \<and> nat (sint s) < length (sockets e)
      then sockets e ! nat (sint s) else None)"

fun first_free :: "'a option list \<Rightarrow> nat" where
  "first_free [] = 0"
| "first_free (None # xs) = 0"
| "first_free (Some x # xs) = Suc (first_free xs)"

definition install :: "'a option list \<Rightarrow> nat \<Rightarrow> 'a \<Rightarrow> 'a option list" where
  "install tbl n x = (if n < length tbl then tbl[n := Some x] else tbl @ [Some x])"

definition live :: "engine \<Rightarrow> int32 \<Rightarrow> sockaddr option \<Rightarrow> u32 \<Rightarrow> bool" where
  "live e s peer_addr addr_len =
     (case (lookup_socket e s, peer_addr) of
        (Some (Listening peers), Some a) \<Rightarrow> (a, addr_len) \<in> set peers
      | _ \<Rightarrow> False)"

definition peel_off :: "engine \<Rightarrow> int32 \<Rightarrow> sockaddr option \<Rightarrow> u32 \<Rightarrow> int32 \<times> engine" where
  "peel_off e s peer_addr addr_len =
     (case peer_addr of
        Some a \<Rightarrow>
          if live e s peer_addr addr_len
          then (let n = first_free (sockets e) in
                (of_nat n, e\<lparr>sockets := install (sockets e) n (PeeledOff a addr_len)\<rparr>))
          else (- 1, e\<lparr>last_error := Some AddressingError\<rparr>)
      | None \<Rightarrow> (- 1, e\<lparr>last_error := Some AddressingError\<rparr>))"

text \<open>
  An engine whose \<^verbatim>\<open>getsockopt\<close> serves the peel-off option as above and rejects
  every other option; its other system calls are those of any engine \<open>K\<close>.
\<close>

definition peel_kernel :: "homa_h \<Rightarrow> engine kernel \<Rightarrow> engine kernel" where
  "peel_kernel H K =
     K\<lparr>k_getsockopt := (\<lambda>e sockfd level optname optval optlen.
        if level = IPPROTO_HOMA H \<and> optname = SO_HOMA_PEELOFF H
        then (case peel_off e sockfd optval optlen of
                (r, e') \<Rightarrow> (r, optval, optlen, e'))
        else (- 1, optval, optlen, e\<lparr>last_error := Some TransportRejected\<rparr>))\<rparr>"

text \<open>
  A world for the runs: one listening socket at descriptor 0 that has observed the peer
  10.0.0.7 (an address of four bytes).
\<close>

definition listening_world :: "engine world" where
  "listening_world =
     \<lparr>calls = [], umem = (\<lambda>p. 0),
      kstate = \<lparr>sockets = [Some (Listening [([10, 0, 0, 7], 4)])], last_error = None\<rparr>\<rparr>"

section \<open>Facts about the system-call layer\<close>

text \<open>
  The status that \<^verbatim>\<open>sendmsg\<close> returns is an \<^verbatim>\<open>int\<close> widened to
  \<^verbatim>\<open>ssize_t\<close>; narrowing it to the library's \<^verbatim>\<open>int result\<close> loses nothing.
\<close>

lemma int_of_ssize: "(scast (scast (r :: 32 word) :: 64 word) :: 32 word) = r"
  by (simp add: scast_up_scast_id is_up)

lemma sint_ssize: "sint (scast (r :: 32 word) :: 64 word) = sint r"
  by (simp add: sint_up_scast is_up)

lemma sendmsg_result:
  assumes "sendmsg K w sockfd hdr flags = (r, a, w1)"
  shows "calls w1 = calls w @ [Sendmsg sockfd hdr flags]"
    and "umem w1 = umem w"
    and "scast (scast r :: int32) = r"
    and "sint (scast r :: int32) = sint r"
  using assms by (auto simp: sendmsg_def int_of_ssize sint_ssize split: prod.splits)

lemma homa_reply_calls:
  "calls (snd (homa_reply K w sockfd message_buf len dest_addr addrlen rpc_id)) =
     calls w @ [Sendmsg sockfd
       \<lparr>msg_name = dest_addr, msg_namelen = addrlen,
        msg_iov = [\<lparr>iov_base = message_buf, iov_len = len\<rparr>], msg_iovlen = 1,
        msg_control = \<lparr>id_sendmsg = rpc_id, completion_cookie = 0\<rparr>,
        msg_controllen = 0\<rparr> 0]"
  by (simp add: homa_reply_def sendmsg_def Let_def split: prod.splits)

lemma homa_replyv_calls:
  "calls (snd (homa_replyv K w sockfd iov iovcnt dest_addr addrlen rpc_id)) =
     calls w @ [Sendmsg sockfd
       \<lparr>msg_name = dest_addr, msg_namelen = addrlen,
        msg_iov = iov, msg_iovlen = scast iovcnt,
        msg_control = \<lparr>id_sendmsg = rpc_id, completion_cookie = 0\<rparr>,
        msg_controllen = 0\<rparr> 0]"
  by (simp add: homa_replyv_def sendmsg_def Let_def split: prod.splits)

lemma homa_reply_connected_calls:
  "calls (snd (homa_reply_connected K w sockfd message_buf len rpc_id)) =
     calls w @ [Sendmsg sockfd
       \<lparr>msg_name = None, msg_namelen = 0,
        msg_iov = [\<lparr>iov_base = message_buf, iov_len = len\<rparr>], msg_iovlen = 1,
        msg_control = \<lparr>id_sendmsg = rpc_id, completion_cookie = 0\<rparr>,
        msg_controllen = 0\<rparr> 0]"
  by (simp add: homa_reply_connected_def sendmsg_def Let_def split: prod.splits)

lemma homa_send_connected_calls:
  "calls (snd (homa_send_connected K w sockfd message_buf len flags)) =
     calls w @ [Sendmsg sockfd
       \<lparr>msg_name = None, msg_namelen = 0,
        msg_iov = [\<lparr>iov_base = message_buf, iov_len = len\<rparr>], msg_iovlen = 1,
        msg_control = \<lparr>id_sendmsg = 0, completion_cookie = 0\<rparr>,
        msg_controllen = 0\<rparr> 0]"
  by (simp add: homa_send_connected_def sendmsg_def Let_def split: prod.splits)

lemma homa_send_sendmsg:
  assumes "sendmsg K w sockfd
      \<lparr>msg_name = dest_addr, msg_namelen = addrlen,
       msg_iov = [\<lparr>iov_base = message_buf, iov_len = len\<rparr>], msg_iovlen = 1,
       msg_control = \<lparr>id_sendmsg = 0, completion_cookie = cookie\<rparr>,
       msg_controllen = 0\<rparr> 0 = (r, a, w1)"
  shows "homa_send K w sockfd message_buf len dest_addr addrlen idp cookie =
     Inr (scast r,
          if 0 \<le> sint r \<and> idp \<noteq> NULL
          then w1\<lparr>umem := (umem w)(idp := id_sendmsg a)\<rparr> else w1)"
  using sendmsg_result(2,4) [OF assms]
  by (simp add: homa_send_def assms store_u64_def Let_def)

lemma homa_sendv_sendmsg:
  assumes "sendmsg K w sockfd
      \<lparr>msg_name = dest_addr, msg_namelen = addrlen,
       msg_iov = iov, msg_iovlen = scast iovcnt,
       msg_control = \<lparr>id_sendmsg = 0, completion_cookie = cookie\<rparr>,
       msg_controllen = 0\<rparr> 0 = (r, a, w1)"
  shows "homa_sendv K w sockfd iov iovcnt dest_addr addrlen idp cookie =
     Inr (scast r,
          if 0 \<le> sint r \<and> idp \<noteq> NULL
          then w1\<lparr>umem := (umem w)(idp := id_sendmsg a)\<rparr> else w1)"
  using sendmsg_result(2,4) [OF assms]
  by (simp add: homa_sendv_def assms store_u64_def Let_def)

lemma homa_send_calls:
  "\<exists>r w'. homa_send K w sockfd message_buf len dest_addr addrlen idp cookie = Inr (r, w') \<and>
     calls w' = calls w @ [Sendmsg sockfd
       \<lparr>msg_name = dest_addr, msg_namelen = addrlen,
        msg_iov = [\<lparr>iov_base = message_buf, iov_len = len\<rparr>], msg_iovlen = 1,
        msg_control = \<lparr>id_sendmsg = 0, completion_cookie = cookie\<rparr>,
        msg_controllen = 0\<rparr> 0]"
  by (auto simp: homa_send_def sendmsg_def store_u64_def Let_def split: prod.splits)

lemma homa_sendv_calls:
  "\<exists>r w'. homa_sendv K w sockfd iov iovcnt dest_addr addrlen idp cookie = Inr (r, w') \<and>
     calls w' = calls w @ [Sendmsg sockfd
       \<lparr>msg_name = dest_addr, msg_namelen = addrlen,
        msg_iov = iov, msg_iovlen = scast iovcnt,
        msg_control = \<lparr>id_sendmsg = 0, completion_cookie = cookie\<rparr>,
        msg_controllen = 0\<rparr> 0]"
  by (auto simp: homa_sendv_def sendmsg_def store_u64_def Let_def split: prod.splits)

subsection \<open>The descriptor table of the peel-off engine\<close>

lemma sint_of_nat_small:
  assumes "n < 2 ^ 31"
  shows "sint (of_nat n :: 32 word) = int n"
proof -
  have "(of_nat n :: 32 word) = word_of_int (int n)"
    by simp
  then have "sint (of_nat n :: 32 word) = signed_take_bit 31 (int n)"
    by (simp only: sint_sbintrunc') simp
  also have "\<dots> = int n"
    using assms by (intro signed_take_bit_int_eq_self) auto
  finally show ?thesis .
qed

lemma first_free_le: "first_free xs \<le> length xs"
  by (induction xs rule: first_free.induct) auto

lemma first_free_None: "first_free xs < length xs \<Longrightarrow> xs ! first_free xs = None"
  by (induction xs rule: first_free.induct) auto

lemma install_nth: "n \<le> length tbl \<Longrightarrow> install tbl n x ! n = Some x"
  by (auto simp: install_def nth_append)

lemma install_length: "n \<le> length tbl \<Longrightarrow> n < length (install tbl n x)"
  by (auto simp: install_def)

lemma install_other:
  "i < length tbl \<Longrightarrow> i \<noteq> n \<Longrightarrow> install tbl n x ! i = tbl ! i"
  by (auto simp: install_def nth_append)

lemma install_length_ge: "length tbl \<le> length (install tbl n x)"
  by (auto simp: install_def)

lemma peel_off_live:
  assumes cap: "length (sockets e) < 2 ^ 31"
    and live: "live e s (Some a) addr_len"
    and res: "peel_off e s (Some a) addr_len = (r, e')"
  shows "0 \<le> sint r" and "r \<noteq> s" and "lookup_socket e r = None"
    and "lookup_socket e' r = Some (PeeledOff a addr_len)"
    and "lookup_socket e' s = lookup_socket e s"
    and "last_error e' = last_error e"
proof -
  let ?n = "first_free (sockets e)"
  have n_le: "?n \<le> length (sockets e)" by (rule first_free_le)
  with cap have n_small: "?n < 2 ^ 31" by simp
  have r: "r = of_nat ?n"
    and e': "e' = e\<lparr>sockets := install (sockets e) ?n (PeeledOff a addr_len)\<rparr>"
    using res live by (simp_all add: peel_off_def Let_def)
  have sr: "sint r = int ?n"
    unfolding r by (rule sint_of_nat_small [OF n_small])
  show "0 \<le> sint r" by (simp add: sr)
  show free: "lookup_socket e r = None"
    using first_free_None [of "sockets e"] by (simp add: lookup_socket_def sr)
  from live obtain peers where parent: "lookup_socket e s = Some (Listening peers)"
    by (auto simp: live_def split: option.splits socket.splits)
  with free show "r \<noteq> s" by auto
  show "lookup_socket e' r = Some (PeeledOff a addr_len)"
    using n_le by (simp add: lookup_socket_def sr e' install_nth install_length)
  have s_in: "0 \<le> sint s" "nat (sint s) < length (sockets e)"
    using parent by (auto simp: lookup_socket_def split: if_splits)
  have "nat (sint s) \<noteq> ?n"
    using parent first_free_None [of "sockets e"] s_in
    by (auto simp: lookup_socket_def)
  then show "lookup_socket e' s = lookup_socket e s"
    using s_in install_length_ge [of "sockets e" ?n "PeeledOff a addr_len"]
    by (simp add: lookup_socket_def e' install_other)
  show "last_error e' = last_error e" by (simp add: e')
qed

lemma peel_off_not_live:
  assumes "\<not> live e s peer_addr addr_len"
  shows "peel_off e s peer_addr addr_len = (- 1, e\<lparr>last_error := Some AddressingError\<rparr>)"
  using assms by (cases peer_addr) (auto simp: peel_off_def)

lemma homa_peeloff_peel_kernel:
  "homa_peeloff H (peel_kernel H K) w sockfd client_addr addrlen =
     (case peel_off (kstate w) sockfd client_addr addrlen of
        (r, e') \<Rightarrow>
          (r, client_addr,
           w\<lparr>calls := calls w @
                [Getsockopt sockfd (IPPROTO_HOMA H) (SO_HOMA_PEELOFF H) client_addr addrlen],
             kstate := e'\<rparr>))"
  by (simp add: homa_peeloff_def getsockopt_def peel_kernel_def split: prod.splits)

section \<open>The claims\<close>

text \<open>
  C1. \<^verbatim>\<open>homa_send\<close> and \<^verbatim>\<open>homa_sendv\<close> issue one \<^verbatim>\<open>sendmsg\<close>, with flags 0
  and a control block whose identifier is 0 and whose cookie is the caller's, whatever
  the caller's identifier location holds. With \<open>(r, a, w1)\<close> the answer of that call
  (result, control block as the engine leaves it, world), the function returns \<open>r\<close>
  as an \<^verbatim>\<open>int\<close> of the same value; when \<open>r\<close> is not negative (and the pointer is
  not null) the identifier of \<open>a\<close> is stored through the caller's pointer, and when
  \<open>r\<close> is negative the caller's memory is as it was before the call.
\<close>

theorem homa_send_id:
  "(let hdr = \<lparr>msg_name = dest_addr, msg_namelen = addrlen,
               msg_iov = [\<lparr>iov_base = message_buf, iov_len = len\<rparr>], msg_iovlen = 1,
               msg_control = \<lparr>id_sendmsg = 0, completion_cookie = cookie\<rparr>,
               msg_controllen = 0\<rparr>
    in case sendmsg K w sockfd hdr 0 of
         (r, a, w1) \<Rightarrow>
           calls w1 = calls w @ [Sendmsg sockfd hdr 0] \<and> umem w1 = umem w \<and>
           homa_send K w sockfd message_buf len dest_addr addrlen idp cookie =
             Inr (scast r,
                  if 0 \<le> sint r \<and> idp \<noteq> NULL
                  then w1\<lparr>umem := (umem w)(idp := id_sendmsg a)\<rparr> else w1) \<and>
           sint (scast r :: int32) = sint r)
   \<and>
   (let hdr = \<lparr>msg_name = dest_addr, msg_namelen = addrlen,
               msg_iov = iov, msg_iovlen = scast iovcnt,
               msg_control = \<lparr>id_sendmsg = 0, completion_cookie = cookie\<rparr>,
               msg_controllen = 0\<rparr>
    in case sendmsg K w sockfd hdr 0 of
         (r, a, w1) \<Rightarrow>
           calls w1 = calls w @ [Sendmsg sockfd hdr 0] \<and> umem w1 = umem w \<and>
           homa_sendv K w sockfd iov iovcnt dest_addr addrlen idp cookie =
             Inr (scast r,
                  if 0 \<le> sint r \<and> idp \<noteq> NULL
                  then w1\<lparr>umem := (umem w)(idp := id_sendmsg a)\<rparr> else w1) \<and>
           sint (scast r :: int32) = sint r)"
  by (auto simp: Let_def homa_send_sendmsg homa_sendv_sendmsg split: prod.splits
      dest: sendmsg_result)

text \<open>
  Both branches on the test engine: a request on descriptor 3 is accepted and the
  identifier 1001 is stored at the caller's address; a request on descriptor \<open>-1\<close> is
  rejected, \<open>-1\<close> is returned and the caller's memory is untouched.
\<close>

theorem homa_send_id_witness:
  "homa_send test_kernel test_world 3 0x1000 4 (Some [10, 0, 0, 7]) 4 0x2000 99 =
     Inr (0, \<lparr>calls = [Sendmsg 3
                 \<lparr>msg_name = Some [10, 0, 0, 7], msg_namelen = 4,
                  msg_iov = [\<lparr>iov_base = 0x1000, iov_len = 4\<rparr>], msg_iovlen = 1,
                  msg_control = \<lparr>id_sendmsg = 0, completion_cookie = 99\<rparr>,
                  msg_controllen = 0\<rparr> 0],
              umem = (\<lambda>p. 0)(0x2000 := 1001), kstate = 1001\<rparr>) \<and>
   homa_sendv test_kernel test_world (- 1) [] 0 None 0 0x2000 99 =
     Inr (- 1, \<lparr>calls = [Sendmsg (- 1)
                 \<lparr>msg_name = None, msg_namelen = 0,
                  msg_iov = [], msg_iovlen = 0,
                  msg_control = \<lparr>id_sendmsg = 0, completion_cookie = 99\<rparr>,
                  msg_controllen = 0\<rparr> 0],
              umem = (\<lambda>p. 0), kstate = 1000\<rparr>)"
  using homa_send_id [where K = test_kernel and w = test_world and sockfd = 3
      and message_buf = "0x1000" and len = 4 and dest_addr = "Some [10, 0, 0, 7]"
      and addrlen = 4 and idp = "0x2000" and cookie = 99 and iov = "[]" and iovcnt = 0]
    homa_send_id [where K = test_kernel and w = test_world and sockfd = "- 1"
      and message_buf = "0x1000" and len = 4 and dest_addr = None
      and addrlen = 0 and idp = "0x2000" and cookie = 99 and iov = "[]" and iovcnt = 0]
  by (simp add: Let_def sendmsg_def test_kernel_def test_world_def NULL_def)

text \<open>
  C2, as amended. \<^verbatim>\<open>homa_reply_connected\<close> is \<^verbatim>\<open>homa_reply\<close> given no address
  (a null \<^verbatim>\<open>dest_addr\<close> and \<^verbatim>\<open>addrlen\<close> 0). \<^verbatim>\<open>homa_send_connected\<close> has
  neither a completion cookie nor an identifier pointer: it is \<^verbatim>\<open>homa_send\<close> given
  no address, the cookie 0 and a null identifier pointer, for any value of its flags.
\<close>

theorem connected_variants:
  "homa_reply_connected K w sockfd message_buf len rpc_id =
     homa_reply K w sockfd message_buf len None 0 rpc_id \<and>
   Inr (homa_send_connected K w sockfd message_buf len flags) =
     homa_send K w sockfd message_buf len None 0 NULL 0"
  by (simp add: homa_reply_connected_def homa_reply_def homa_send_connected_def
      homa_send_def Let_def split: prod.splits)

text \<open>
  C2 as stated fails for \<^verbatim>\<open>homa_send_connected\<close>: on the test engine,
  \<^verbatim>\<open>homa_send\<close> with no address hands the engine the caller's cookie 99 and stores
  the assigned identifier 1001 at the caller's address, while
  \<^verbatim>\<open>homa_send_connected\<close>, which takes neither, hands over the cookie 0 and stores
  nothing.
\<close>

theorem connected_send_drops_cookie_and_id:
  "homa_send test_kernel test_world 3 0x1000 4 None 0 0x2000 99 \<noteq>
     Inr (homa_send_connected test_kernel test_world 3 0x1000 4 0) \<and>
   calls (snd (projr (homa_send test_kernel test_world 3 0x1000 4 None 0 0x2000 99))) =
     [Sendmsg 3 \<lparr>msg_name = None, msg_namelen = 0,
        msg_iov = [\<lparr>iov_base = 0x1000, iov_len = 4\<rparr>], msg_iovlen = 1,
        msg_control = \<lparr>id_sendmsg = 0, completion_cookie = 99\<rparr>,
        msg_controllen = 0\<rparr> 0] \<and>
   umem (snd (projr (homa_send test_kernel test_world 3 0x1000 4 None 0 0x2000 99))) 0x2000
     = 1001 \<and>
   calls (snd (homa_send_connected test_kernel test_world 3 0x1000 4 0)) =
     [Sendmsg 3 \<lparr>msg_name = None, msg_namelen = 0,
        msg_iov = [\<lparr>iov_base = 0x1000, iov_len = 4\<rparr>], msg_iovlen = 1,
        msg_control = \<lparr>id_sendmsg = 0, completion_cookie = 0\<rparr>,
        msg_controllen = 0\<rparr> 0] \<and>
   umem (snd (homa_send_connected test_kernel test_world 3 0x1000 4 0)) 0x2000 = 0"
  by (simp add: homa_send_def homa_send_connected_def sendmsg_def store_u64_def
      test_kernel_def test_world_def NULL_def Let_def)

text \<open>
  C3, against the engine modelled from the spec, whose descriptor table has room (fewer
  than \<open>2 ^ 31\<close> slots). \<^verbatim>\<open>homa_peeloff\<close> issues one \<^verbatim>\<open>getsockopt\<close> with
  the level \<^verbatim>\<open>IPPROTO_HOMA\<close>, the option \<^verbatim>\<open>SO_HOMA_PEELOFF\<close>, the peer address
  and its length. When the address and length are a live association of the listening
  socket, the result is a handle that is not negative, differs from the listening
  socket, was free before the call and now names a socket bound to that peer, and the
  listening socket is as before. Otherwise the result is negative, the engine records
  an addressing error and its table of sockets is unchanged.
\<close>

theorem homa_peeloff_association:
  assumes "length (sockets (kstate w)) < 2 ^ 31"
  shows "case homa_peeloff H (peel_kernel H K) w sockfd client_addr addrlen of
     (r, ca, w') \<Rightarrow>
       calls w' = calls w @
         [Getsockopt sockfd (IPPROTO_HOMA H) (SO_HOMA_PEELOFF H) client_addr addrlen] \<and>
       (if live (kstate w) sockfd client_addr addrlen
        then 0 \<le> sint r \<and> r \<noteq> sockfd \<and>
             lookup_socket (kstate w) r = None \<and>
             (\<exists>a. client_addr = Some a \<and>
                lookup_socket (kstate w') r = Some (PeeledOff a addrlen)) \<and>
             lookup_socket (kstate w') sockfd = lookup_socket (kstate w) sockfd
        else sint r < 0 \<and> last_error (kstate w') = Some AddressingError \<and>
             sockets (kstate w') = sockets (kstate w))"
proof (cases "live (kstate w) sockfd client_addr addrlen")
  case True
  then obtain a where a: "client_addr = Some a"
    by (cases client_addr) (auto simp: live_def split: option.splits socket.splits)
  obtain r e' where p: "peel_off (kstate w) sockfd (Some a) addrlen = (r, e')"
    by (cases "peel_off (kstate w) sockfd (Some a) addrlen") auto
  note f = peel_off_live [OF assms True [unfolded a] p]
  show ?thesis
    using True f by (simp add: homa_peeloff_peel_kernel a p)
next
  case False
  then show ?thesis
    by (simp add: homa_peeloff_peel_kernel peel_off_not_live)
qed

text \<open>
  On a table with one listening socket at descriptor 0 that has observed the peer
  10.0.0.7: peeling that peer off returns descriptor 1, and peeling off the unobserved
  10.0.0.8 returns \<open>-1\<close>.
\<close>

theorem homa_peeloff_association_witness:
  "length (sockets (kstate listening_world)) < 2 ^ 31 \<and>
   live (kstate listening_world) 0 (Some [10, 0, 0, 7]) 4 \<and>
   fst (homa_peeloff test_homa_h (peel_kernel test_homa_h null_kernel) listening_world 0
          (Some [10, 0, 0, 7]) 4) = 1 \<and>
   \<not> live (kstate listening_world) 0 (Some [10, 0, 0, 8]) 4 \<and>
   fst (homa_peeloff test_homa_h (peel_kernel test_homa_h null_kernel) listening_world 0
          (Some [10, 0, 0, 8]) 4) = - 1"
proof -
  have cap: "length (sockets (kstate listening_world)) < 2 ^ 31"
    by (simp add: listening_world_def)
  have l1: "live (kstate listening_world) 0 (Some [10, 0, 0, 7]) 4"
    by (simp add: live_def lookup_socket_def listening_world_def)
  have l2: "\<not> live (kstate listening_world) 0 (Some [10, 0, 0, 8]) 4"
    by (simp add: live_def lookup_socket_def listening_world_def)
  have r1: "fst (homa_peeloff test_homa_h (peel_kernel test_homa_h null_kernel)
      listening_world 0 (Some [10, 0, 0, 7]) 4) = 1"
    by (simp add: homa_peeloff_peel_kernel peel_off_def live_def lookup_socket_def
        listening_world_def)
  have r2: "fst (homa_peeloff test_homa_h (peel_kernel test_homa_h null_kernel)
      listening_world 0 (Some [10, 0, 0, 8]) 4) = - 1"
    by (simp add: homa_peeloff_peel_kernel peel_off_def live_def lookup_socket_def
        listening_world_def)
  from homa_peeloff_association [OF cap, where H = test_homa_h and K = null_kernel
      and sockfd = 0 and client_addr = "Some [10, 0, 0, 7]" and addrlen = 4]
    homa_peeloff_association [OF cap, where H = test_homa_h and K = null_kernel
      and sockfd = 0 and client_addr = "Some [10, 0, 0, 8]" and addrlen = 4]
  show ?thesis using cap l1 l2 r1 r2 by simp
qed

text \<open>
  C4. The control block that \<^verbatim>\<open>homa_reply\<close>, \<^verbatim>\<open>homa_replyv\<close> and
  \<^verbatim>\<open>homa_reply_connected\<close> hand to \<^verbatim>\<open>sendmsg\<close> has the completion cookie 0,
  whatever the arguments.
\<close>

theorem reply_cookie_zero:
  "(\<exists>hdr. calls (snd (homa_reply K w sockfd message_buf len dest_addr addrlen rpc_id)) =
        calls w @ [Sendmsg sockfd hdr 0] \<and>
      completion_cookie (msg_control hdr) = 0) \<and>
   (\<exists>hdr. calls (snd (homa_replyv K w sockfd iov iovcnt dest_addr addrlen rpc_id)) =
        calls w @ [Sendmsg sockfd hdr 0] \<and>
      completion_cookie (msg_control hdr) = 0) \<and>
   (\<exists>hdr. calls (snd (homa_reply_connected K w sockfd message_buf len rpc_id)) =
        calls w @ [Sendmsg sockfd hdr 0] \<and>
      completion_cookie (msg_control hdr) = 0)"
  by (simp add: homa_reply_calls homa_replyv_calls homa_reply_connected_calls)

text \<open>
  C5. \<^verbatim>\<open>homa_send\<close> on a buffer and a length is \<^verbatim>\<open>homa_sendv\<close> on the array
  of that one element with count 1: the same call (control block, destination, flags),
  the same result and the same effect on the caller's memory. Likewise
  \<^verbatim>\<open>homa_reply\<close> and \<^verbatim>\<open>homa_replyv\<close>.
\<close>

theorem single_buffer_is_one_element_iovec:
  "homa_send K w sockfd message_buf len dest_addr addrlen idp cookie =
     homa_sendv K w sockfd [\<lparr>iov_base = message_buf, iov_len = len\<rparr>] 1
       dest_addr addrlen idp cookie \<and>
   homa_reply K w sockfd message_buf len dest_addr addrlen rpc_id =
     homa_replyv K w sockfd [\<lparr>iov_base = message_buf, iov_len = len\<rparr>] 1
       dest_addr addrlen rpc_id"
  by (simp add: homa_send_def homa_sendv_def homa_reply_def homa_replyv_def)

text \<open>
  C6. \<^verbatim>\<open>homa_abort\<close> issues one \<^verbatim>\<open>ioctl\<close> with the request
  \<^verbatim>\<open>HOMAIOCABORT\<close> and the record of its two arguments, and returns the result of
  that call. Every other function of the library issues one \<^verbatim>\<open>sendmsg\<close>, or, for
  \<^verbatim>\<open>homa_peeloff\<close>, one \<^verbatim>\<open>getsockopt\<close>, and no \<^verbatim>\<open>ioctl\<close>.
\<close>

theorem homa_abort_ioctl:
  "(case ioctl K w sockfd (HOMAIOCABORT H) \<lparr>id_abort = rpc_id, error = err\<rparr> of
      (r, a, w1) \<Rightarrow>
        calls w1 = calls w @ [Ioctl sockfd (HOMAIOCABORT H) \<lparr>id_abort = rpc_id, error = err\<rparr>] \<and>
        homa_abort H K w sockfd rpc_id err = (r, w1) \<and>
        r = fst (k_ioctl K (kstate w) sockfd (HOMAIOCABORT H)
                   \<lparr>id_abort = rpc_id, error = err\<rparr>)) \<and>
   (\<exists>hdr. calls (snd (homa_reply K w sockfd message_buf len dest_addr addrlen rpc_id)) =
        calls w @ [Sendmsg sockfd hdr 0]) \<and>
   (\<exists>hdr. calls (snd (homa_replyv K w sockfd iov iovcnt dest_addr addrlen rpc_id)) =
        calls w @ [Sendmsg sockfd hdr 0]) \<and>
   (\<exists>hdr r w'. homa_send K w sockfd message_buf len dest_addr addrlen idp cookie =
        Inr (r, w') \<and> calls w' = calls w @ [Sendmsg sockfd hdr 0]) \<and>
   (\<exists>hdr r w'. homa_sendv K w sockfd iov iovcnt dest_addr addrlen idp cookie =
        Inr (r, w') \<and> calls w' = calls w @ [Sendmsg sockfd hdr 0]) \<and>
   (\<exists>hdr. calls (snd (homa_reply_connected K w sockfd message_buf len rpc_id)) =
        calls w @ [Sendmsg sockfd hdr 0]) \<and>
   (\<exists>hdr. calls (snd (homa_send_connected K w sockfd message_buf len flags)) =
        calls w @ [Sendmsg sockfd hdr 0]) \<and>
   calls (snd (snd (homa_peeloff H K w sockfd client_addr addrlen))) =
     calls w @ [Getsockopt sockfd (IPPROTO_HOMA H) (SO_HOMA_PEELOFF H) client_addr addrlen]"
proof -
  have abort: "case ioctl K w sockfd (HOMAIOCABORT H) \<lparr>id_abort = rpc_id, error = err\<rparr> of
      (r, a, w1) \<Rightarrow>
        calls w1 = calls w @ [Ioctl sockfd (HOMAIOCABORT H) \<lparr>id_abort = rpc_id, error = err\<rparr>] \<and>
        homa_abort H K w sockfd rpc_id err = (r, w1) \<and>
        r = fst (k_ioctl K (kstate w) sockfd (HOMAIOCABORT H)
                   \<lparr>id_abort = rpc_id, error = err\<rparr>)"
    by (simp add: homa_abort_def ioctl_def split: prod.splits)
  have peel: "calls (snd (snd (homa_peeloff H K w sockfd client_addr addrlen))) =
     calls w @ [Getsockopt sockfd (IPPROTO_HOMA H) (SO_HOMA_PEELOFF H) client_addr addrlen]"
    by (simp add: homa_peeloff_def getsockopt_def split: prod.splits)
  from homa_send_calls [of K w sockfd message_buf len dest_addr addrlen idp cookie]
  have send: "\<exists>hdr r w'. homa_send K w sockfd message_buf len dest_addr addrlen idp cookie =
        Inr (r, w') \<and> calls w' = calls w @ [Sendmsg sockfd hdr 0]"
    by blast
  from homa_sendv_calls [of K w sockfd iov iovcnt dest_addr addrlen idp cookie]
  have sendv: "\<exists>hdr r w'. homa_sendv K w sockfd iov iovcnt dest_addr addrlen idp cookie =
        Inr (r, w') \<and> calls w' = calls w @ [Sendmsg sockfd hdr 0]"
    by blast
  show ?thesis
    using abort peel send sendv
    by (simp add: homa_reply_calls homa_replyv_calls homa_reply_connected_calls
        homa_send_connected_calls)
qed

text \<open>
  C8. \<^verbatim>\<open>homa_reply\<close> forwards its identifier unchecked, with the cookie 0. With the
  identifier 0 it issues the very call that \<^verbatim>\<open>homa_send\<close> issues with the cookie 0
  (same descriptor, header and flags), and leaves the engine in the same state with the
  same result.
\<close>

theorem zero_id_reply_is_request:
  "calls (snd (homa_reply K w sockfd message_buf len dest_addr addrlen rpc_id)) =
     calls w @ [Sendmsg sockfd
       \<lparr>msg_name = dest_addr, msg_namelen = addrlen,
        msg_iov = [\<lparr>iov_base = message_buf, iov_len = len\<rparr>], msg_iovlen = 1,
        msg_control = \<lparr>id_sendmsg = rpc_id, completion_cookie = 0\<rparr>,
        msg_controllen = 0\<rparr> 0] \<and>
   (\<exists>r w'. homa_send K w sockfd message_buf len dest_addr addrlen idp 0 = Inr (r, w') \<and>
      calls w' = calls (snd (homa_reply K w sockfd message_buf len dest_addr addrlen 0)) \<and>
      kstate w' = kstate (snd (homa_reply K w sockfd message_buf len dest_addr addrlen 0)) \<and>
      scast r = fst (homa_reply K w sockfd message_buf len dest_addr addrlen 0))"
proof -
  let ?hdr = "\<lparr>msg_name = dest_addr, msg_namelen = addrlen,
      msg_iov = [\<lparr>iov_base = message_buf, iov_len = len\<rparr>], msg_iovlen = 1,
      msg_control = \<lparr>id_sendmsg = 0, completion_cookie = 0\<rparr>, msg_controllen = 0\<rparr>"
  obtain r a w1 where s: "sendmsg K w sockfd ?hdr 0 = (r, a, w1)"
    by (cases "sendmsg K w sockfd ?hdr 0") auto
  have reply: "homa_reply K w sockfd message_buf len dest_addr addrlen 0 =
      (scast (scast r :: int32), w1)"
    by (simp add: homa_reply_def s)
  have "homa_send K w sockfd message_buf len dest_addr addrlen idp 0 =
      Inr (scast r,
           if 0 \<le> sint r \<and> idp \<noteq> NULL
           then w1\<lparr>umem := (umem w)(idp := id_sendmsg a)\<rparr> else w1)"
    by (rule homa_send_sendmsg [OF s])
  with reply show ?thesis
    by (simp add: homa_reply_calls)
qed

text \<open>
  C9. The flags of \<^verbatim>\<open>homa_send_connected\<close> have no effect: two calls that differ
  only in them give the same result and the same world, and the flags handed to
  \<^verbatim>\<open>sendmsg\<close> are 0.
\<close>

theorem send_connected_ignores_flags:
  "homa_send_connected K w sockfd message_buf len f1 =
     homa_send_connected K w sockfd message_buf len f2 \<and>
   calls (snd (homa_send_connected K w sockfd message_buf len f1)) =
     calls w @ [Sendmsg sockfd
       \<lparr>msg_name = None, msg_namelen = 0,
        msg_iov = [\<lparr>iov_base = message_buf, iov_len = len\<rparr>], msg_iovlen = 1,
        msg_control = \<lparr>id_sendmsg = 0, completion_cookie = 0\<rparr>,
        msg_controllen = 0\<rparr> 0]"
  by (simp add: homa_send_connected_calls) (simp add: homa_send_connected_def)

text \<open>
  C10. With a null identifier pointer \<^verbatim>\<open>homa_send\<close> and \<^verbatim>\<open>homa_sendv\<close>
  never fault: whatever \<^verbatim>\<open>sendmsg\<close> answers, they return its result and leave the
  caller's memory as it was.
\<close>

theorem null_id_pointer:
  "(case sendmsg K w sockfd
      \<lparr>msg_name = dest_addr, msg_namelen = addrlen,
       msg_iov = [\<lparr>iov_base = message_buf, iov_len = len\<rparr>], msg_iovlen = 1,
       msg_control = \<lparr>id_sendmsg = 0, completion_cookie = cookie\<rparr>,
       msg_controllen = 0\<rparr> 0 of
      (r, a, w1) \<Rightarrow>
        homa_send K w sockfd message_buf len dest_addr addrlen NULL cookie =
          Inr (scast r, w1) \<and>
        umem w1 = umem w \<and> sint (scast r :: int32) = sint r) \<and>
   (case sendmsg K w sockfd
      \<lparr>msg_name = dest_addr, msg_namelen = addrlen,
       msg_iov = iov, msg_iovlen = scast iovcnt,
       msg_control = \<lparr>id_sendmsg = 0, completion_cookie = cookie\<rparr>,
       msg_controllen = 0\<rparr> 0 of
      (r, a, w1) \<Rightarrow>
        homa_sendv K w sockfd iov iovcnt dest_addr addrlen NULL cookie =
          Inr (scast r, w1) \<and>
        umem w1 = umem w \<and> sint (scast r :: int32) = sint r)"
  by (auto simp: homa_send_sendmsg homa_sendv_sendmsg split: prod.splits
      dest: sendmsg_result)

end
